theory Spec2Isabelle
  imports Main
begin

section \<open>Data model (src/types/index.ts)\<close>

text \<open>
  A JavaScript \<open>Date\<close> is its time value: the number of milliseconds since the epoch,
  an \<open>int\<close> here. The zone the browser runs in is a parameter \<open>tz\<close> of every function
  that reads or builds a date in local time.

  The hotel's \<open>HH:MM\<close> strings are kept in parsed form, as the two numbers that
  \<open>timeString.split(':').map(Number)\<close> yields.
\<close>

datatype status = Confirmed | CheckedIn | CheckedOut | Cancelled

record timeOfDay =
  hours :: nat
  minutes :: nat

text \<open>
  \<open>reservationData\<close> is \<open>Omit<Reservation, 'id' | 'createdAt' | 'reminderSent'>\<close> as the
  form builds it; \<open>reservation\<close> extends it with the remaining fields of \<open>Reservation\<close>.
  An optional field is an \<open>option\<close>.
\<close>

record reservationData =
  customerId :: string
  checkInDate :: int
  checkOutDate :: int
  roomType :: string
  specificRoomId :: "string option"
  numberOfGuests :: int
  totalAmount :: int
  status :: status
  specialRequests :: "string option"

record reservation = reservationData +
  id_reservation :: string
  createdAt :: int
  reminderSent :: bool
  reminderDate :: "int option"
  cancellationComment :: "string option"

record room =
  id_room :: string
  roomNumber :: string
  roomTypeId :: string
  isActive :: bool
  amenities :: "string list"

record hotelSettings =
  totalRooms :: nat
  hotelName :: string
  rooms :: "room list"
  checkInTime :: timeOfDay
  checkOutTime :: timeOfDay

section \<open>Dates and instants\<close>

definition MS_PER_DAY :: int where
  "MS_PER_DAY = 24 * 60 * 60 * 1000"

text \<open>\<open>MakeTime(hours, minutes, 0, 0)\<close>: the offset that \<open>setHours\<close> and \<open>setUTCHours\<close> add
  to the start of the day.\<close>

definition timeMs :: "timeOfDay \<Rightarrow> int" where
  "timeMs t = int (hours t) * 3600000 + int (minutes t) * 60000"

text \<open>\<open>new Date(Date.UTC(d.getUTCFullYear(), d.getUTCMonth(), d.getUTCDate()))\<close>.\<close>

definition utcMidnight :: "int \<Rightarrow> int" where
  "utcMidnight d = (d div MS_PER_DAY) * MS_PER_DAY"

text \<open>
  A time zone: the offset of its standard time from UTC, in milliseconds (negative west of
  Greenwich), and the periods, from a UTC instant up to but not including another, during
  which daylight-saving time, one hour ahead of standard time, is in force.
  \<open>LocalTZA_utc\<close> and \<open>LocalTZA_local\<close> are ECMAScript's \<open>LocalTZA(t, true)\<close> and
  \<open>LocalTZA(t, false)\<close>: the offset in force at a UTC instant, and the offset by which a local
  time is read, which for a local time that is skipped or repeated at a change is the offset
  before the change. \<open>LocalTime\<close> and \<open>UTC\<close> are the conversions of ECMAScript built on them.
\<close>

record zone =
  stdOffset :: int
  dstPeriods :: "(int \<times> int) list"

definition MS_PER_HOUR :: int where
  "MS_PER_HOUR = 60 * 60 * 1000"

definition inDst :: "zone \<Rightarrow> int \<Rightarrow> bool" where
  "inDst tz t = list_ex (\<lambda>(s, e). s \<le> t \<and> t < e) (dstPeriods tz)"

definition LocalTZA_utc :: "zone \<Rightarrow> int \<Rightarrow> int" where
  "LocalTZA_utc tz t = stdOffset tz + (if inDst tz t then MS_PER_HOUR else 0)"

definition LocalTZA_local :: "zone \<Rightarrow> int \<Rightarrow> int" where
  "LocalTZA_local tz tlocal =
     stdOffset tz + (if inDst tz (tlocal - stdOffset tz - MS_PER_HOUR) then MS_PER_HOUR else 0)"

definition LocalTime :: "zone \<Rightarrow> int \<Rightarrow> int" where
  "LocalTime tz t = t + LocalTZA_utc tz t"

definition UTC :: "zone \<Rightarrow> int \<Rightarrow> int" where
  "UTC tz tlocal = tlocal - LocalTZA_local tz tlocal"

text \<open>\<open>new Date(d.getFullYear(), d.getMonth(), d.getDate())\<close>: the local midnight of the local
  calendar day of \<open>d\<close>.\<close>

definition localMidnight :: "zone \<Rightarrow> int \<Rightarrow> int" where
  "localMidnight tz d = UTC tz ((LocalTime tz d div MS_PER_DAY) * MS_PER_DAY)"

text \<open>\<open>d.setHours(hours, minutes, 0, 0)\<close>, the time given in milliseconds: that time of the local
  calendar day of \<open>d\<close>.\<close>

definition setHours :: "zone \<Rightarrow> int \<Rightarrow> int \<Rightarrow> int" where
  "setHours tz d ms = UTC tz ((LocalTime tz d div MS_PER_DAY) * MS_PER_DAY + ms)"

text \<open>
  A \<open>YYYY-MM-DD\<close> string is given by the number of its calendar day, counted from
  1970-01-01. \<open>Date.UTC(year, month - 1, day)\<close> and \<open>new Date(year, month - 1, day)\<close> are
  then the UTC and the local midnight of that day.
\<close>

definition utcDate :: "int \<Rightarrow> int" where
  "utcDate day = day * MS_PER_DAY"

definition localDate :: "zone \<Rightarrow> int \<Rightarrow> int" where
  "localDate tz day = UTC tz (day * MS_PER_DAY)"

datatype dateInput = DateString int | DateObject int

text \<open>\<open>createTimeAwareDate\<close> of App.tsx (inside \<open>checkRoomAvailability\<close>).\<close>

definition createTimeAwareDate_App :: "dateInput \<Rightarrow> timeOfDay \<Rightarrow> int" where
  "createTimeAwareDate_App dateInput timeString =
     (let date = (case dateInput of
                    DateString day \<Rightarrow> utcDate day
                  | DateObject d \<Rightarrow> utcMidnight d)
      in utcMidnight date + timeMs timeString)"

text \<open>\<open>createTimeAwareDate\<close> of ReservationForm.tsx.\<close>

definition createTimeAwareDate_Form :: "zone \<Rightarrow> dateInput \<Rightarrow> timeOfDay \<Rightarrow> int" where
  "createTimeAwareDate_Form tz dateInput timeString =
     (let date = (case dateInput of
                    DateString day \<Rightarrow> localDate tz day
                  | DateObject d \<Rightarrow> localMidnight tz d)
      in setHours tz date (timeMs timeString))"

text \<open>\<open>d.setDate(d.getDate() + 1)\<close>: the day after the local calendar day of \<open>d\<close>, at the local
  time of day of \<open>d\<close>. Across a daylight-saving change this is 23 or 25 hours later.\<close>

definition setDate_next :: "zone \<Rightarrow> int \<Rightarrow> int" where
  "setDate_next tz d =
     (let local = LocalTime tz d
      in UTC tz ((local div MS_PER_DAY + 1) * MS_PER_DAY + local mod MS_PER_DAY))"

section \<open>Availability engine (App.tsx, checkRoomAvailability)\<close>

text \<open>The filter callback of \<open>occupiedRoomsOfType\<close>.\<close>

definition countsAgainstNight ::
  "hotelSettings \<Rightarrow> string \<Rightarrow> int \<Rightarrow> int \<Rightarrow> reservation \<Rightarrow> bool" where
  "countsAgainstNight hs newRoomType currentCheckIn currentCheckOut r =
     (if status r = Cancelled \<or> status r = CheckedOut then False
      else if roomType r \<noteq> newRoomType then False
      else (let resCheckIn = createTimeAwareDate_App (DateObject (checkInDate r)) (checkInTime hs);
                resCheckOut = createTimeAwareDate_App (DateObject (checkOutDate r)) (checkOutTime hs)
            in \<not> (resCheckOut \<le> currentCheckIn \<or> resCheckIn \<ge> currentCheckOut)))"

definition occupiedRoomsOfType ::
  "hotelSettings \<Rightarrow> reservation list \<Rightarrow> string \<Rightarrow> int \<Rightarrow> nat" where
  "occupiedRoomsOfType hs reservations newRoomType currentDate =
     (let currentCheckIn = createTimeAwareDate_App (DateObject currentDate) (checkInTime hs);
          nextDay = currentDate + 24 * 60 * 60 * 1000;
          currentCheckOut = createTimeAwareDate_App (DateObject nextDay) (checkOutTime hs)
      in length (filter (countsAgainstNight hs newRoomType currentCheckIn currentCheckOut)
                   reservations))"

definition roomsOfType_App :: "hotelSettings \<Rightarrow> string \<Rightarrow> nat" where
  "roomsOfType_App hs newRoomType =
     (let activeRooms = filter isActive (rooms hs)
      in length (filter (\<lambda>room. roomTypeId room = newRoomType) activeRooms))"

text \<open>The \<open>while (currentDate < checkOutDate)\<close> loop, with \<open>overbookedDates\<close> as accumulator.\<close>

function checkRoomAvailability_loop ::
  "zone \<Rightarrow> hotelSettings \<Rightarrow> reservation list \<Rightarrow> string \<Rightarrow> int \<Rightarrow> int \<Rightarrow> int list \<Rightarrow> int list" where
  "checkRoomAvailability_loop tz hs reservations newRoomType checkOut currentDate overbookedDates =
     (if currentDate < checkOut
      then checkRoomAvailability_loop tz hs reservations newRoomType checkOut
             (setDate_next tz currentDate)
             (if occupiedRoomsOfType hs reservations newRoomType currentDate + 1
                   > roomsOfType_App hs newRoomType
              then overbookedDates @ [currentDate] else overbookedDates)
      else overbookedDates)"
  by pat_completeness auto

termination
proof (relation "measure (\<lambda>(tz, hs, rs, rt, checkOut, currentDate, acc). nat (checkOut - currentDate))")
  show "wf (measure (\<lambda>(tz, hs, rs, rt, checkOut, currentDate, acc). nat (checkOut - currentDate)))"
    by simp
next
  fix tz :: zone and hs :: hotelSettings and reservations :: "reservation list"
    and newRoomType :: string and checkOut currentDate :: int and overbookedDates :: "int list"
  assume "currentDate < checkOut"
  moreover have "LocalTime tz currentDate div MS_PER_DAY * MS_PER_DAY
      + LocalTime tz currentDate mod MS_PER_DAY = LocalTime tz currentDate"
    by simp
  then have "setDate_next tz currentDate
      = currentDate + MS_PER_DAY + LocalTZA_utc tz currentDate
          - LocalTZA_local tz (LocalTime tz currentDate + MS_PER_DAY)"
    unfolding setDate_next_def Let_def UTC_def
    by (simp add: algebra_simps LocalTime_def)
  then have "currentDate < setDate_next tz currentDate"
    by (simp add: LocalTZA_utc_def LocalTZA_local_def MS_PER_DAY_def MS_PER_HOUR_def)
  ultimately show "((tz, hs, reservations, newRoomType, checkOut, setDate_next tz currentDate,
        if roomsOfType_App hs newRoomType < occupiedRoomsOfType hs reservations newRoomType currentDate + 1
        then overbookedDates @ [currentDate] else overbookedDates),
       tz, hs, reservations, newRoomType, checkOut, currentDate, overbookedDates)
      \<in> measure (\<lambda>(tz, hs, rs, rt, checkOut, currentDate, acc). nat (checkOut - currentDate))"
    by simp
qed

declare checkRoomAvailability_loop.simps [simp del]

definition checkRoomAvailability ::
  "zone \<Rightarrow> hotelSettings \<Rightarrow> reservation list \<Rightarrow> 'a reservationData_scheme \<Rightarrow> int list" where
  "checkRoomAvailability tz hs reservations newReservation =
     checkRoomAvailability_loop tz hs reservations (roomType newReservation)
       (checkOutDate newReservation) (checkInDate newReservation) []"

section \<open>Room assignment resolver and next-available-date search (ReservationForm.tsx)\<close>

text \<open>
  The form's state. A date input holds the empty string (\<open>None\<close>) or a \<open>YYYY-MM-DD\<close>
  string, given by the number of its calendar day.
\<close>

record formData =
  customerId_form :: string
  checkInDate_form :: "int option"
  checkOutDate_form :: "int option"
  roomType_form :: string
  specificRoomId_form :: string
  numberOfGuests_form :: int
  totalAmount_form :: int
  specialRequests_form :: string

text \<open>The filter callback of \<open>overlappingReservations\<close>, the same in \<open>getAvailableRooms\<close> and in
  the search loop; \<open>initialData\<close> is the reservation being edited, if any.\<close>

definition overlapsWindow ::
  "zone \<Rightarrow> hotelSettings \<Rightarrow> reservation option \<Rightarrow> string \<Rightarrow> int \<Rightarrow> int \<Rightarrow> reservation \<Rightarrow> bool" where
  "overlapsWindow tz hs initialData formRoomType newCheckIn newCheckOut r =
     (if (case initialData of None \<Rightarrow> False | Some e \<Rightarrow> id_reservation r = id_reservation e) then False
      else if status r = Cancelled \<or> status r = CheckedOut then False
      else if roomType r \<noteq> formRoomType then False
      else (let resCheckIn = createTimeAwareDate_Form tz (DateObject (checkInDate r)) (checkInTime hs);
                resCheckOut = createTimeAwareDate_Form tz (DateObject (checkOutDate r)) (checkOutTime hs)
            in \<not> (resCheckOut \<le> newCheckIn \<or> resCheckIn \<ge> newCheckOut)))"

text \<open>\<open>if (reservation.specificRoomId)\<close>: neither undefined nor the empty string.\<close>

definition hasSpecificRoom :: "reservation \<Rightarrow> bool" where
  "hasSpecificRoom r = (case specificRoomId r of None \<Rightarrow> False | Some s \<Rightarrow> s \<noteq> [])"

text \<open>The \<open>forEach\<close> that fills the set \<open>specificRoomBookings\<close> and counts the generic bookings.\<close>

definition specificRoomBookings :: "reservation list \<Rightarrow> string list" where
  "specificRoomBookings overlapping = map (\<lambda>r. the (specificRoomId r)) (filter hasSpecificRoom overlapping)"

definition genericBookingsCount :: "reservation list \<Rightarrow> nat" where
  "genericBookingsCount overlapping = length (filter (\<lambda>r. \<not> hasSpecificRoom r) overlapping)"

definition getAvailableRooms ::
  "zone \<Rightarrow> room list \<Rightarrow> reservation list \<Rightarrow> hotelSettings \<Rightarrow> reservation option \<Rightarrow> formData \<Rightarrow> room list" where
  "getAvailableRooms tz roomList existingReservations hs initialData fd =
     (case (checkInDate_form fd, checkOutDate_form fd) of
        (Some ci, Some co) \<Rightarrow>
          if roomType_form fd = [] then []
          else
            (let checkInDate = localDate tz ci;
                 checkOutDate = localDate tz co;
                 roomsOfType = filter (\<lambda>room. roomTypeId room = roomType_form fd \<and> isActive room) roomList;
                 newCheckIn = createTimeAwareDate_Form tz (DateObject checkInDate) (checkInTime hs);
                 newCheckOut = createTimeAwareDate_Form tz (DateObject checkOutDate) (checkOutTime hs);
                 overlappingReservations =
                   filter (overlapsWindow tz hs initialData (roomType_form fd) newCheckIn newCheckOut)
                     existingReservations;
                 booked = specificRoomBookings overlappingReservations;
                 availableSpecificRooms = filter (\<lambda>room. id_room room \<notin> set booked) roomsOfType;
                 totalAvailableRooms =
                   max 0 (int (length availableSpecificRooms) - int (genericBookingsCount overlappingReservations))
             in take (nat totalAvailableRooms) availableSpecificRooms)
      | _ \<Rightarrow> [])"

text \<open>The body of the \<open>for\<close> loop up to \<open>totalAvailableRoomsForPeriod\<close>.\<close>

definition totalAvailableRoomsForPeriod ::
  "zone \<Rightarrow> room list \<Rightarrow> reservation list \<Rightarrow> hotelSettings \<Rightarrow> reservation option \<Rightarrow> string \<Rightarrow> int \<Rightarrow> int \<Rightarrow> int" where
  "totalAvailableRoomsForPeriod tz roomsOfType existingReservations hs initialData formRoomType
       requestedDurationMs searchDate =
     (let potentialCheckOutDate = searchDate + requestedDurationMs;
          potentialCheckIn = createTimeAwareDate_Form tz (DateObject searchDate) (checkInTime hs);
          potentialCheckOut = createTimeAwareDate_Form tz (DateObject potentialCheckOutDate) (checkOutTime hs);
          overlappingReservationsForPeriod =
            filter (overlapsWindow tz hs initialData formRoomType potentialCheckIn potentialCheckOut)
              existingReservations;
          booked = specificRoomBookings overlappingReservationsForPeriod;
          availableSpecificRoomsForPeriod = filter (\<lambda>room. id_room room \<notin> set booked) roomsOfType
      in max 0 (int (length availableSpecificRoomsForPeriod)
                 - int (genericBookingsCount overlappingReservationsForPeriod)))"

text \<open>The loop \<open>for (let i = 0; i < maxSearchDays; i++)\<close>; the first argument after the
  context is the number of iterations left, \<open>maxSearchDays - i\<close>.\<close>

fun searchLoop ::
  "zone \<Rightarrow> room list \<Rightarrow> reservation list \<Rightarrow> hotelSettings \<Rightarrow> reservation option \<Rightarrow> string \<Rightarrow> int
     \<Rightarrow> nat \<Rightarrow> int \<Rightarrow> int option" where
  "searchLoop tz roomsOfType existingReservations hs initialData formRoomType requestedDurationMs 0 searchDate = None"
| "searchLoop tz roomsOfType existingReservations hs initialData formRoomType requestedDurationMs (Suc n) searchDate =
     (if totalAvailableRoomsForPeriod tz roomsOfType existingReservations hs initialData formRoomType
           requestedDurationMs searchDate > 0
      then Some searchDate
      else searchLoop tz roomsOfType existingReservations hs initialData formRoomType requestedDurationMs n
             (searchDate + 24 * 60 * 60 * 1000))"

definition maxSearchDays :: nat where
  "maxSearchDays = 365"

text \<open>\<open>now\<close> is the value of \<open>new Date()\<close>.\<close>

definition getNextAvailableDateForRequestedDuration ::
  "zone \<Rightarrow> int \<Rightarrow> room list \<Rightarrow> reservation list \<Rightarrow> hotelSettings \<Rightarrow> reservation option \<Rightarrow> formData
     \<Rightarrow> int option" where
  "getNextAvailableDateForRequestedDuration tz now roomList existingReservations hs initialData fd =
     (case (checkInDate_form fd, checkOutDate_form fd) of
        (Some ci, Some co) \<Rightarrow>
          if roomType_form fd = [] then None
          else
            (let checkInDate = localDate tz ci;
                 checkOutDate = localDate tz co;
                 requestedDurationMs = checkOutDate - checkInDate
             in if requestedDurationMs \<le> 0 then None
                else
                  (let roomsOfType = filter (\<lambda>room. roomTypeId room = roomType_form fd \<and> isActive room) roomList
                   in if length roomsOfType = 0 then None
                      else
                        (let todayLocal = localMidnight tz now;
                             searchDate = max todayLocal (checkInDate + 24 * 60 * 60 * 1000)
                         in searchLoop tz roomsOfType existingReservations hs initialData (roomType_form fd)
                              requestedDurationMs maxSearchDays searchDate)))
      | _ \<Rightarrow> None)"

section \<open>Form submission (ReservationForm.tsx, handleSubmit)\<close>

text \<open>
  What \<open>handleSubmit\<close> does after \<open>preventDefault\<close>: it shows the alert and returns, or it
  calls \<open>onSubmit\<close> with the reservation data. A date input left empty parses to an invalid
  \<open>Date\<close>, every comparison with which is false; \<open>onSubmit\<close> is then called with an invalid
  date (\<open>OnSubmitInvalidDate\<close>).
\<close>

datatype submitOutcome =
    Alert string
  | OnSubmit reservationData
  | OnSubmitInvalidDate

definition handleSubmit :: "zone \<Rightarrow> formData \<Rightarrow> submitOutcome" where
  "handleSubmit tz fd =
     (case (checkInDate_form fd, checkOutDate_form fd) of
        (Some ci, Some co) \<Rightarrow>
          (let checkInDate = localDate tz ci;
               checkOutDate = localDate tz co
           in if checkOutDate \<le> checkInDate
              then Alert ''Check-out date must be after check-in date''
              else
                (let numberOfGuests = (if numberOfGuests_form fd > 0 then numberOfGuests_form fd else 1)
                 in OnSubmit
                      \<lparr> customerId = customerId_form fd,
                        checkInDate = checkInDate,
                        checkOutDate = checkOutDate,
                        roomType = roomType_form fd,
                        specificRoomId = Some (specificRoomId_form fd),
                        numberOfGuests = numberOfGuests,
                        totalAmount = totalAmount_form fd,
                        status = Confirmed,
                        specialRequests =
                          (if specialRequests_form fd = [] then None else Some (specialRequests_form fd)) \<rparr>))
      | _ \<Rightarrow> OnSubmitInvalidDate)"

section \<open>Reservation state machine\<close>

subsection \<open>The store (useReservations, updateReservationStatus)\<close>

text \<open>
  The hook's state \<open>reservations\<close> mirrors the rows of the \<open>reservations\<close> table. The update
  \<open>.update(updateData).eq('id', id).select().single()\<close> fails unless exactly one row has the
  id; the hook then throws and leaves its state as it was. Otherwise the row is written and
  every entry of the state with that id is replaced by the row read back.
\<close>

datatype error = UpdateFailed

text \<open>\<open>if (status === 'cancelled' && comment)\<close>: a comment that is neither undefined nor empty.\<close>

definition writesComment :: "status \<Rightarrow> string option \<Rightarrow> bool" where
  "writesComment st comment =
     (st = Cancelled \<and> (case comment of None \<Rightarrow> False | Some c \<Rightarrow> c \<noteq> []))"

definition updatedReservation :: "status \<Rightarrow> string option \<Rightarrow> reservation \<Rightarrow> reservation" where
  "updatedReservation st comment row =
     (if writesComment st comment
      then row\<lparr>status := st, cancellationComment := comment\<rparr>
      else row\<lparr>status := st\<rparr>)"

definition updateReservationStatus ::
  "reservation list \<Rightarrow> string \<Rightarrow> status \<Rightarrow> string option \<Rightarrow> error + reservation list" where
  "updateReservationStatus reservations i st comment =
     (case filter (\<lambda>r. id_reservation r = i) reservations of
        [row] \<Rightarrow>
          Inr (map (\<lambda>r. if id_reservation r = i then updatedReservation st comment row else r)
                 reservations)
      | _ \<Rightarrow> Inl UpdateFailed)"

text \<open>\<open>updateReservationStatus\<close> of App.tsx, the \<open>onUpdateStatus\<close> of the list and of the sweep:
  it catches the failure (and alerts), so the state stays as it was.\<close>

definition onUpdateStatus ::
  "reservation list \<Rightarrow> string \<Rightarrow> status \<Rightarrow> string option \<Rightarrow> reservation list" where
  "onUpdateStatus reservations i st comment =
     (case updateReservationStatus reservations i st comment of
        Inr reservations' \<Rightarrow> reservations'
      | Inl e \<Rightarrow> reservations)"

subsection \<open>Operator actions (ReservationList)\<close>

text \<open>
  The buttons of a table row. Each is rendered only for the statuses of its guard; the
  cancel button opens the modal, whose confirmation passes the comment typed there.
\<close>

datatype rowButton = CheckInButton | CheckOutButton | CancelButton string

definition rendered :: "reservation \<Rightarrow> rowButton \<Rightarrow> bool" where
  "rendered row b =
     (case b of
        CheckInButton \<Rightarrow> status row = Confirmed
      | CheckOutButton \<Rightarrow> status row = CheckedIn
      | CancelButton c \<Rightarrow> status row = Confirmed \<or> status row = CheckedIn)"

definition clickButton :: "reservation list \<Rightarrow> reservation \<Rightarrow> rowButton \<Rightarrow> reservation list" where
  "clickButton reservations row b =
     (if \<not> rendered row b then reservations
      else (case b of
              CheckInButton \<Rightarrow> onUpdateStatus reservations (id_reservation row) CheckedIn None
            | CheckOutButton \<Rightarrow> onUpdateStatus reservations (id_reservation row) CheckedOut None
            | CancelButton c \<Rightarrow> onUpdateStatus reservations (id_reservation row) Cancelled (Some c)))"

subsection \<open>Editing a reservation (ReservationList, App.tsx, useReservations)\<close>

text \<open>
  A click on a row of the list, whatever the status of its reservation, calls \<open>onEdit\<close> with
  \<open>reservations.find(r => r.id === row.id)\<close>; \<open>onEdit\<close> is \<open>setEditingReservation\<close>, and the form
  opens on that reservation.
\<close>

definition onRowClick :: "reservation list \<Rightarrow> string \<Rightarrow> reservation option" where
  "onRowClick reservations rowId = List.find (\<lambda>r. id_reservation r = rowId) reservations"

text \<open>
  The second argument of the hook's \<open>updateReservation\<close>, a
  \<open>Partial<Omit<Reservation, 'id' | 'createdAt'>>\<close>: \<open>None\<close> is a field that is absent or undefined.
\<close>

record reservationPatch =
  customerId_patch :: "string option"
  checkInDate_patch :: "int option"
  checkOutDate_patch :: "int option"
  roomType_patch :: "string option"
  specificRoomId_patch :: "string option"
  numberOfGuests_patch :: "int option"
  totalAmount_patch :: "int option"
  status_patch :: "status option"
  specialRequests_patch :: "string option"
  reminderSent_patch :: "bool option"
  reminderDate_patch :: "int option"
  cancellationComment_patch :: "string option"

text \<open>
  The row after \<open>.update(updateData)\<close>, read back by \<open>transformReservation\<close>. The customer, the
  room type, the number of guests and the status are written when they are truthy (a status
  is a non-empty string), the dates when they are given, the other fields when they are not
  undefined. A date is written as \<open>toISOString().split('T')[0]\<close> and read back as the UTC
  midnight of that day.
\<close>

definition patchedReservation :: "reservationPatch \<Rightarrow> reservation \<Rightarrow> reservation" where
  "patchedReservation p row =
     row\<lparr> customerId :=
            (case customerId_patch p of
               Some c \<Rightarrow> if c = [] then customerId row else c
             | None \<Rightarrow> customerId row),
          checkInDate :=
            (case checkInDate_patch p of Some d \<Rightarrow> utcMidnight d | None \<Rightarrow> checkInDate row),
          checkOutDate :=
            (case checkOutDate_patch p of Some d \<Rightarrow> utcMidnight d | None \<Rightarrow> checkOutDate row),
          roomType :=
            (case roomType_patch p of
               Some t \<Rightarrow> if t = [] then roomType row else t
             | None \<Rightarrow> roomType row),
          specificRoomId :=
            (case specificRoomId_patch p of Some s \<Rightarrow> Some s | None \<Rightarrow> specificRoomId row),
          numberOfGuests :=
            (case numberOfGuests_patch p of
               Some n \<Rightarrow> if n = 0 then numberOfGuests row else n
             | None \<Rightarrow> numberOfGuests row),
          totalAmount :=
            (case totalAmount_patch p of Some a \<Rightarrow> a | None \<Rightarrow> totalAmount row),
          status :=
            (case status_patch p of Some st \<Rightarrow> st | None \<Rightarrow> status row),
          specialRequests :=
            (case specialRequests_patch p of Some s \<Rightarrow> Some s | None \<Rightarrow> specialRequests row),
          reminderSent :=
            (case reminderSent_patch p of Some b \<Rightarrow> b | None \<Rightarrow> reminderSent row),
          reminderDate :=
            (case reminderDate_patch p of Some d \<Rightarrow> Some d | None \<Rightarrow> reminderDate row),
          cancellationComment :=
            (case cancellationComment_patch p of
               Some c \<Rightarrow> Some c
             | None \<Rightarrow> cancellationComment row) \<rparr>"

text \<open>\<open>updateReservation\<close> of the hook: like \<open>updateReservationStatus\<close>, it fails unless exactly
  one row has the id, and otherwise replaces every entry of the state with that id by the
  row read back.\<close>

definition updateReservation ::
  "reservation list \<Rightarrow> string \<Rightarrow> reservationPatch \<Rightarrow> error + reservation list" where
  "updateReservation reservations i p =
     (case filter (\<lambda>r. id_reservation r = i) reservations of
        [row] \<Rightarrow>
          Inr (map (\<lambda>r. if id_reservation r = i then patchedReservation p row else r) reservations)
      | _ \<Rightarrow> Inl UpdateFailed)"

text \<open>
  \<open>updateReservation\<close> of App.tsx, the \<open>onSubmit\<close> of the form that edits: it does nothing
  without an \<open>editingReservation\<close>; otherwise it passes the submitted data with the reminder
  fields of the reservation being edited, and catches a failure (and alerts).
\<close>

definition updateReservation_App ::
  "reservation list \<Rightarrow> reservation option \<Rightarrow> reservationData \<Rightarrow> reservation list" where
  "updateReservation_App reservations editingReservation reservationData =
     (case editingReservation of
        None \<Rightarrow> reservations
      | Some editing \<Rightarrow>
          (case updateReservation reservations (id_reservation editing)
                  \<lparr> customerId_patch = Some (customerId reservationData),
                    checkInDate_patch = Some (checkInDate reservationData),
                    checkOutDate_patch = Some (checkOutDate reservationData),
                    roomType_patch = Some (roomType reservationData),
                    specificRoomId_patch = specificRoomId reservationData,
                    numberOfGuests_patch = Some (numberOfGuests reservationData),
                    totalAmount_patch = Some (totalAmount reservationData),
                    status_patch = Some (status reservationData),
                    specialRequests_patch = specialRequests reservationData,
                    reminderSent_patch = Some (reminderSent editing),
                    reminderDate_patch = reminderDate editing,
                    cancellationComment_patch = None \<rparr> of
             Inr reservations' \<Rightarrow> reservations'
           | Inl e \<Rightarrow> reservations))"

text \<open>
  The form that edits \<open>editingReservation\<close>, submitted with the contents \<open>fd\<close>: \<open>handleSubmit\<close>
  with \<open>updateReservation\<close> of App.tsx as its \<open>onSubmit\<close>. With an invalid date the hook throws
  at \<open>toISOString\<close>, which App.tsx catches.
\<close>

definition submitEditForm ::
  "zone \<Rightarrow> reservation list \<Rightarrow> reservation option \<Rightarrow> formData \<Rightarrow> reservation list" where
  "submitEditForm tz reservations editingReservation fd =
     (case handleSubmit tz fd of
        OnSubmit reservationData \<Rightarrow> updateReservation_App reservations editingReservation reservationData
      | Alert message \<Rightarrow> reservations
      | OnSubmitInvalidDate \<Rightarrow> reservations)"

subsection \<open>Auto-cancellation (useAutoCancellation, checkForNoShows)\<close>

text \<open>
  \<open>now\<close> is the value of \<open>new Date()\<close>; \<open>toLocaleDateString\<close> is the browser's formatting of a
  date, a parameter.
\<close>

definition today :: "zone \<Rightarrow> int \<Rightarrow> int" where
  "today tz now = setHours tz now 0"

definition cutoffTime :: "zone \<Rightarrow> int \<Rightarrow> int" where
  "cutoffTime tz now = setHours tz now (11 * 3600000)"

definition isCheckInToday :: "zone \<Rightarrow> int \<Rightarrow> reservation \<Rightarrow> bool" where
  "isCheckInToday tz now r =
     (let checkInDateOnly = setHours tz (checkInDate r) 0 in checkInDateOnly = today tz now)"

definition isCheckInOverdue :: "zone \<Rightarrow> int \<Rightarrow> reservation \<Rightarrow> bool" where
  "isCheckInOverdue tz now r = (isCheckInToday tz now r \<and> now \<ge> cutoffTime tz now)"

definition isStayOverdue :: "zone \<Rightarrow> int \<Rightarrow> reservation \<Rightarrow> bool" where
  "isStayOverdue tz now r =
     (let checkOutDateOnly = setHours tz (checkOutDate r) 0 in checkOutDateOnly < today tz now)"

text \<open>The filter callback of \<open>noShowReservations\<close>.\<close>

definition isNoShow :: "zone \<Rightarrow> int \<Rightarrow> reservation \<Rightarrow> bool" where
  "isNoShow tz now r =
     (if status r \<noteq> Confirmed then False
      else isCheckInOverdue tz now r \<or> isStayOverdue tz now r)"

definition cancellationComment_auto :: "zone \<Rightarrow> (int \<Rightarrow> string) \<Rightarrow> int \<Rightarrow> reservation \<Rightarrow> string" where
  "cancellationComment_auto tz toLocaleDateString now r =
     (if isStayOverdue tz now r
      then ''Automatically cancelled - Guest did not check in by departure date (''
             @ toLocaleDateString (checkOutDate r) @ '')''
      else ''Automatically cancelled - Guest did not check in by 11:00 AM on ''
             @ toLocaleDateString (checkInDate r))"

text \<open>The calls \<open>onUpdateStatus(reservation.id, 'cancelled', cancellationComment)\<close> that one run
  of \<open>checkForNoShows\<close> makes, in order.\<close>

definition checkForNoShows ::
  "zone \<Rightarrow> (int \<Rightarrow> string) \<Rightarrow> int \<Rightarrow> reservation list \<Rightarrow> (string \<times> status \<times> string option) list" where
  "checkForNoShows tz toLocaleDateString now reservations =
     (let noShowReservations = filter (isNoShow tz now) reservations
      in map (\<lambda>r. (id_reservation r, Cancelled, Some (cancellationComment_auto tz toLocaleDateString now r)))
           noShowReservations)"

text \<open>One run of the sweep on the store: the calls are applied one after the other.\<close>

definition sweep :: "zone \<Rightarrow> (int \<Rightarrow> string) \<Rightarrow> int \<Rightarrow> reservation list \<Rightarrow> reservation list" where
  "sweep tz toLocaleDateString now reservations =
     foldl (\<lambda>state (i, st, comment). onUpdateStatus state i st comment) reservations
       (checkForNoShows tz toLocaleDateString now reservations)"

section \<open>The specification's formulations\<close>

text \<open>
  The definitions of this section follow the words of the specification; the theorems
  below compare them with the functions of the code above.
\<close>

text \<open>Section 4.1, as the availability engine resolves it: a date is a \<open>Date\<close> object.\<close>

definition resolveInstant :: "int \<Rightarrow> timeOfDay \<Rightarrow> int" where
  "resolveInstant date timeOfDay = createTimeAwareDate_App (DateObject date) timeOfDay"

text \<open>Section 4.2: two half-open intervals \<open>[a,b)\<close> and \<open>[c,d)\<close> overlap iff \<open>a < d\<close> and \<open>c < b\<close>.\<close>

definition intervalsOverlap :: "int \<Rightarrow> int \<Rightarrow> int \<Rightarrow> int \<Rightarrow> bool" where
  "intervalsOverlap a b c d = (a < d \<and> c < b)"









section \<open>The specification's formulations: the state machine\<close>

text \<open>The fields of a reservation other than the status and the cancellation comment.\<close>

definition sameOtherFields :: "reservation \<Rightarrow> reservation \<Rightarrow> bool" where
  "sameOtherFields r r' =
     (id_reservation r' = id_reservation r \<and> customerId r' = customerId r \<and>
      checkInDate r' = checkInDate r \<and> checkOutDate r' = checkOutDate r \<and>
      roomType r' = roomType r \<and> specificRoomId r' = specificRoomId r \<and>
      numberOfGuests r' = numberOfGuests r \<and> totalAmount r' = totalAmount r \<and>
      specialRequests r' = specialRequests r \<and> createdAt r' = createdAt r \<and>
      reminderSent r' = reminderSent r \<and> reminderDate r' = reminderDate r)"

text \<open>
  Section 4.5, the policy-driven transitions. The dates of a reservation are calendar days;
  the store holds a calendar day as its UTC midnight. Today and the time of day are those of
  the zone.
\<close>

definition calendarDay :: "int \<Rightarrow> int" where
  "calendarDay date = date div MS_PER_DAY"

definition localDay :: "zone \<Rightarrow> int \<Rightarrow> int" where
  "localDay tz t = LocalTime tz t div MS_PER_DAY"

definition localTimeOfDay :: "zone \<Rightarrow> int \<Rightarrow> int" where
  "localTimeOfDay tz t = LocalTime tz t mod MS_PER_DAY"

text \<open>No-show: the check-in date is today and the current time is at or past 11:00 local.\<close>

definition noShowDue :: "zone \<Rightarrow> int \<Rightarrow> reservation \<Rightarrow> bool" where
  "noShowDue tz now r =
     (calendarDay (checkInDate r) = localDay tz now \<and> localTimeOfDay tz now \<ge> 11 * 3600000)"

text \<open>Overdue stay: the check-out date is strictly before today.\<close>

definition stayElapsed :: "zone \<Rightarrow> int \<Rightarrow> reservation \<Rightarrow> bool" where
  "stayElapsed tz now r = (calendarDay (checkOutDate r) < localDay tz now)"

text \<open>The reservations that a run of the sweep has to cancel: the confirmed ones that are a
  no-show or whose stay has elapsed.\<close>

definition dueForCancellation :: "zone \<Rightarrow> int \<Rightarrow> reservation list \<Rightarrow> string list" where
  "dueForCancellation tz now rs =
     map id_reservation
       (filter (\<lambda>r. status r = Confirmed \<and> (noShowDue tz now r \<or> stayElapsed tz now r)) rs)"

text \<open>For the proofs: what one run of the sweep does to an entry of the store holding \<open>rs\<close>. A
  no-show whose id no other entry has is cancelled with the generated comment; the update of
  an id that several entries share fails and changes nothing.\<close>

definition sweepEntry ::
  "zone \<Rightarrow> (int \<Rightarrow> string) \<Rightarrow> int \<Rightarrow> reservation list \<Rightarrow> reservation \<Rightarrow> reservation" where
  "sweepEntry tz fmt now rs r =
     (if isNoShow tz now r \<and> length (filter (\<lambda>x. id_reservation x = id_reservation r) rs) = 1
      then r\<lparr>status := Cancelled,
             cancellationComment := Some (cancellationComment_auto tz fmt now r)\<rparr>
      else r)"

section \<open>The specification's formulations: the room assignment resolver\<close>

text \<open>
  Section 4.3. The overlap test is that of Section 4.2, applied to the window of the whole
  stay: an existing reservation counts against the stay from \<open>checkIn\<close> to \<open>checkOut\<close> when it
  is not the reservation being edited, is neither cancelled nor checked out, is of the
  requested room type, and its window overlaps the window of the stay.
\<close>

definition overlapsStay :: "hotelSettings \<Rightarrow> int \<Rightarrow> int \<Rightarrow> reservation \<Rightarrow> bool" where
  "overlapsStay hs checkIn checkOut r =
     intervalsOverlap
       (resolveInstant (checkInDate r) (checkInTime hs))
       (resolveInstant (checkOutDate r) (checkOutTime hs))
       (resolveInstant checkIn (checkInTime hs))
       (resolveInstant checkOut (checkOutTime hs))"

definition countsAgainstStay ::
  "hotelSettings \<Rightarrow> string option \<Rightarrow> string \<Rightarrow> int \<Rightarrow> int \<Rightarrow> reservation \<Rightarrow> bool" where
  "countsAgainstStay hs excludeReservationId rt checkIn checkOut r =
     (excludeReservationId \<noteq> Some (id_reservation r) \<and>
      status r \<noteq> Cancelled \<and> status r \<noteq> CheckedOut \<and> roomType r = rt \<and>
      overlapsStay hs checkIn checkOut r)"

text \<open>A room is pinned during a stay by a reservation that is neither cancelled nor checked
  out, names the room as its specific room and covers an overlapping window.\<close>

definition pinnedDuring :: "hotelSettings \<Rightarrow> int \<Rightarrow> int \<Rightarrow> room \<Rightarrow> reservation \<Rightarrow> bool" where
  "pinnedDuring hs checkIn checkOut room r =
     (status r \<noteq> Cancelled \<and> status r \<noteq> CheckedOut \<and>
      specificRoomId r = Some (id_room room) \<and> overlapsStay hs checkIn checkOut r)"

text \<open>The active rooms of the type, without the rooms that an overlapping reservation pins;
  of these the first \<open>N\<close>, where \<open>N\<close> is their number reduced by the number of overlapping
  generic reservations.\<close>

definition availableRooms ::
  "room list \<Rightarrow> reservation list \<Rightarrow> hotelSettings \<Rightarrow> string option \<Rightarrow> string \<Rightarrow> int \<Rightarrow> int
     \<Rightarrow> room list" where
  "availableRooms roomList existing hs excludeReservationId rt checkIn checkOut =
     (let pool = filter (\<lambda>room. isActive room \<and> roomTypeId room = rt) roomList;
          overlapping = filter (countsAgainstStay hs excludeReservationId rt checkIn checkOut) existing;
          pinning = filter hasSpecificRoom overlapping;
          generic = filter (\<lambda>r. \<not> hasSpecificRoom r) overlapping;
          remaining =
            filter (\<lambda>room. list_all (\<lambda>r. specificRoomId r \<noteq> Some (id_room room)) pinning) pool
      in take (length remaining - length generic) remaining)"

section \<open>The specification's formulations: the next-available-date search\<close>

text \<open>
  Section 4.4. Dates are calendar days, given by their number. A start is feasible for a
  duration when the pool reduction of Section 4.3, applied to the window from the start to
  the start plus the duration, leaves a room. The scan begins at the later of today and the
  day after \<open>fromDate\<close> and tries 365 starts, a day apart.
\<close>

definition feasibleStart ::
  "room list \<Rightarrow> reservation list \<Rightarrow> hotelSettings \<Rightarrow> string option \<Rightarrow> string \<Rightarrow> int \<Rightarrow> int
     \<Rightarrow> bool" where
  "feasibleStart roomList existing hs excludeReservationId rt requestedDurationDays start =
     (length (availableRooms roomList existing hs excludeReservationId rt (utcDate start)
                (utcDate (start + requestedDurationDays))) > 0)"

text \<open>The first day of the scan: the later of today and the day after \<open>fromDate\<close>.\<close>

definition scanStart :: "zone \<Rightarrow> int \<Rightarrow> int \<Rightarrow> int" where
  "scanStart tz now fromDate = max (localDay tz now) (fromDate + 1)"

text \<open>The first feasible start among the 365 days from the first day of the scan; \<open>None\<close> is
  not-found.\<close>

definition nextFeasibleStart ::
  "zone \<Rightarrow> int \<Rightarrow> room list \<Rightarrow> reservation list \<Rightarrow> hotelSettings \<Rightarrow> string option \<Rightarrow> string \<Rightarrow> int
     \<Rightarrow> int \<Rightarrow> int option" where
  "nextFeasibleStart tz now roomList existing hs excludeReservationId rt requestedDurationDays fromDate =
     List.find (feasibleStart roomList existing hs excludeReservationId rt requestedDurationDays)
       (map (\<lambda>k. scanStart tz now fromDate + int k) [0 ..< 365])"

section \<open>Example data\<close>

text \<open>The default settings of App.tsx, and reservations on them. Day 20098 is 2025-01-10.\<close>

definition standardRoom :: "string \<Rightarrow> string \<Rightarrow> room" where
  "standardRoom i n =
     \<lparr> id_room = i, roomNumber = n, roomTypeId = ''standard'', isActive = True,
       amenities = [''wifi'', ''tv'', ''bathroom'', ''ac''] \<rparr>"

definition defaultHotelSettings :: hotelSettings where
  "defaultHotelSettings =
     \<lparr> totalRooms = 6, hotelName = ''The Stay Palms Hotel'',
       rooms =
         [ standardRoom ''1'' ''101'', standardRoom ''2'' ''102'',
           \<lparr> id_room = ''3'', roomNumber = ''201'', roomTypeId = ''deluxe'', isActive = True,
             amenities = [''wifi'', ''tv'', ''bathroom'', ''ac'', ''coffee'', ''minibar''] \<rparr>,
           \<lparr> id_room = ''4'', roomNumber = ''202'', roomTypeId = ''deluxe'', isActive = True,
             amenities = [''wifi'', ''tv'', ''bathroom'', ''ac'', ''coffee'', ''minibar''] \<rparr>,
           \<lparr> id_room = ''5'', roomNumber = ''301'', roomTypeId = ''suite'', isActive = True,
             amenities = [''wifi'', ''tv'', ''bathroom'', ''ac'', ''coffee'', ''minibar'', ''balcony''] \<rparr>,
           \<lparr> id_room = ''6'', roomNumber = ''302'', roomTypeId = ''family'', isActive = True,
             amenities = [''wifi'', ''tv'', ''bathroom'', ''ac'', ''coffee''] \<rparr> ],
       checkInTime = \<lparr> hours = 15, minutes = 0 \<rparr>,
       checkOutTime = \<lparr> hours = 11, minutes = 0 \<rparr> \<rparr>"

text \<open>A stored reservation as \<open>transformReservation\<close> builds it: both dates at UTC midnight.\<close>

definition storedReservation ::
  "string \<Rightarrow> int \<Rightarrow> int \<Rightarrow> string \<Rightarrow> string option \<Rightarrow> status \<Rightarrow> reservation" where
  "storedReservation i dayIn dayOut rt specific st =
     \<lparr> customerId = ''c1'', checkInDate = utcDate dayIn, checkOutDate = utcDate dayOut,
       roomType = rt, specificRoomId = specific, numberOfGuests = 2, totalAmount = 240,
       status = st, specialRequests = None,
       id_reservation = i, createdAt = 1735689600000, reminderSent = False,
       reminderDate = None, cancellationComment = None \<rparr>"

text \<open>
  The zone America/Chicago with the daylight-saving period of 2025: Central Standard Time,
  six hours behind UTC, and Central Daylight Time from 2025-03-09 (day 20156) 08:00 UTC to
  2025-11-02 (day 20394) 07:00 UTC. And a zone that keeps UTC.
\<close>

definition americaChicago :: zone where
  "americaChicago =
     \<lparr> stdOffset = - 6 * MS_PER_HOUR,
       dstPeriods = [(20156 * MS_PER_DAY + 8 * MS_PER_HOUR, 20394 * MS_PER_DAY + 7 * MS_PER_HOUR)] \<rparr>"

definition utcZone :: zone where
  "utcZone = \<lparr> stdOffset = 0, dstPeriods = [] \<rparr>"


text \<open>Reservations for the state machine, at 2025-01-10 11:01 in a zone on UTC: a confirmed
  one checking in today, a checked-in one whose stay ended yesterday, a confirmed one whose
  stay ended yesterday, and a confirmed one checking in tomorrow.\<close>

definition sweepExample :: "reservation list" where
  "sweepExample =
     [ storedReservation ''a'' 20098 20100 ''standard'' None Confirmed,
       storedReservation ''b'' 20095 20097 ''deluxe'' (Some ''3'') CheckedIn,
       storedReservation ''c'' 20095 20097 ''suite'' None Confirmed,
       storedReservation ''d'' 20099 20101 ''family'' None Confirmed ]"

definition sweepExampleNow :: int where
  "sweepExampleNow = utcDate 20098 + 11 * 3600000 + 60000"

text \<open>\<open>toLocaleDateString\<close> in the locale \<open>en-US\<close> and a zone on UTC, on the dates of the
  example.\<close>

definition exampleDateString :: "int \<Rightarrow> string" where
  "exampleDateString d =
     (if d = utcDate 20098 then ''1/10/2025''
      else if d = utcDate 20097 then ''1/9/2025''
      else ''?'')"

text \<open>A store with a cancelled, a checked-out and a confirmed reservation.\<close>

definition terminalExample :: "reservation list" where
  "terminalExample =
     [ storedReservation ''a'' 20095 20097 ''suite'' None Cancelled,
       storedReservation ''b'' 20095 20097 ''deluxe'' (Some ''3'') CheckedOut,
       storedReservation ''c'' 20098 20100 ''standard'' None Confirmed ]"

text \<open>The form filled in for a stay from day \<open>dayIn\<close> to day \<open>dayOut\<close> in a room of type \<open>rt\<close>.\<close>

definition exampleForm :: "int \<Rightarrow> int \<Rightarrow> string \<Rightarrow> formData" where
  "exampleForm dayIn dayOut rt =
     \<lparr> customerId_form = ''c1'', checkInDate_form = Some dayIn, checkOutDate_form = Some dayOut,
       roomType_form = rt, specificRoomId_form = [], numberOfGuests_form = 2,
       totalAmount_form = 0, specialRequests_form = [] \<rparr>"

text \<open>The hotel's only suite is taken from 2025-01-10 to 2025-01-13 by two reservations.\<close>

definition suiteExample :: "reservation list" where
  "suiteExample =
     [ storedReservation ''a'' 20098 20100 ''suite'' None Confirmed,
       storedReservation ''b'' 20100 20101 ''suite'' (Some ''5'') CheckedIn ]"

text \<open>\<open>toLocaleDateString\<close> in the locale \<open>en-US\<close> and the zone America/Chicago, on the stored
  dates 2025-01-10 and 2025-01-12, which are the evenings of 2025-01-09 and 2025-01-11
  there.\<close>

definition chicagoDateString :: "int \<Rightarrow> string" where
  "chicagoDateString d =
     (if d = utcDate 20098 then ''1/9/2025''
      else if d = utcDate 20100 then ''1/11/2025''
      else ''?'')"

text \<open>Both standard rooms are taken from 2025-01-10 to 2025-01-12: room 1 by a reservation
  that pins it, the other by a generic reservation.\<close>

definition standardExample :: "reservation list" where
  "standardExample =
     [ storedReservation ''a'' 20098 20100 ''standard'' (Some ''1'') Confirmed,
       storedReservation ''b'' 20098 20100 ''standard'' None CheckedIn ]"

text \<open>The reservation data that \<open>handleSubmit\<close> passes on for \<open>exampleForm dayIn dayOut rt\<close>: the
  dates are the local midnights of the two days.\<close>

definition formReservation :: "zone \<Rightarrow> int \<Rightarrow> int \<Rightarrow> string \<Rightarrow> reservationData" where
  "formReservation tz dayIn dayOut rt =
     \<lparr> customerId = ''c1'', checkInDate = localDate tz dayIn, checkOutDate = localDate tz dayOut,
       roomType = rt, specificRoomId = Some [], numberOfGuests = 2, totalAmount = 0,
       status = Confirmed, specialRequests = None \<rparr>"

section \<open>Auxiliary lemmas\<close>

subsection \<open>Days and zones\<close>

lemma MS_PER_DAY_pos: "0 < MS_PER_DAY"
  by (simp add: MS_PER_DAY_def)


lemma LocalTZA_local_bounds:
  "stdOffset tz \<le> LocalTZA_local tz t \<and> LocalTZA_local tz t \<le> stdOffset tz + MS_PER_HOUR"
  unfolding LocalTZA_local_def by (simp add: MS_PER_HOUR_def)

lemma hour_less_day: "MS_PER_HOUR < MS_PER_DAY"
  by (simp add: MS_PER_HOUR_def MS_PER_DAY_def)

lemma UTC_less:
  assumes "a + MS_PER_DAY \<le> b"
  shows "UTC tz a < UTC tz b"
  using assms LocalTZA_local_bounds[of tz a] LocalTZA_local_bounds[of tz b] hour_less_day
  unfolding UTC_def by linarith

lemma localDate_less_iff: "localDate tz a < localDate tz b \<longleftrightarrow> a < b"
proof
  assume "a < b"
  then have "a * MS_PER_DAY + MS_PER_DAY \<le> b * MS_PER_DAY"
    using MS_PER_DAY_pos mult_right_mono[of "a + 1" b MS_PER_DAY] by (simp add: algebra_simps)
  then show "localDate tz a < localDate tz b"
    unfolding localDate_def by (rule UTC_less)
next
  assume lt: "localDate tz a < localDate tz b"
  show "a < b"
  proof (rule ccontr)
    assume "\<not> a < b"
    then have "b = a \<or> b < a" by linarith
    then show False
    proof
      assume "b = a"
      with lt show False by simp
    next
      assume "b < a"
      then have "b * MS_PER_DAY + MS_PER_DAY \<le> a * MS_PER_DAY"
        using MS_PER_DAY_pos mult_right_mono[of "b + 1" a MS_PER_DAY] by (simp add: algebra_simps)
      then have "localDate tz b < localDate tz a"
        unfolding localDate_def by (rule UTC_less)
      with lt show False by simp
    qed
  qed
qed







subsection \<open>Daylight-saving changes\<close>



subsection \<open>The nights of a stay\<close>









subsection \<open>The availability loop\<close>






subsection \<open>Back-to-back stays\<close>






subsection \<open>The store and the sweep\<close>

lemma filter_singleton_member:
  assumes "filter P xs = [row]" and "r \<in> set xs" and "P r"
  shows "r = row"
proof -
  from assms(2,3) have "r \<in> set (filter P xs)" by simp
  then show ?thesis by (simp add: assms(1))
qed

lemma updateReservationStatus_Inr:
  assumes "updateReservationStatus rs i st c = Inr rs'"
  shows "length (filter (\<lambda>r. id_reservation r = i) rs) = 1
       \<and> rs' = map (\<lambda>r. if id_reservation r = i then updatedReservation st c r else r) rs"
proof -
  from assms obtain row where row: "filter (\<lambda>r. id_reservation r = i) rs = [row]"
    and rs': "rs' = map (\<lambda>r. if id_reservation r = i then updatedReservation st c row else r) rs"
    unfolding updateReservationStatus_def
    by (auto split: list.splits)
  have "map (\<lambda>r. if id_reservation r = i then updatedReservation st c row else r) rs
      = map (\<lambda>r. if id_reservation r = i then updatedReservation st c r else r) rs"
    by (rule map_cong[OF refl]) (auto dest: filter_singleton_member[OF row])
  with row rs' show ?thesis by simp
qed

lemma updateReservationStatus_unique:
  assumes "length (filter (\<lambda>r. id_reservation r = i) rs) = 1"
  shows "updateReservationStatus rs i st c
       = Inr (map (\<lambda>r. if id_reservation r = i then updatedReservation st c r else r) rs)"
proof -
  from assms obtain row where row: "filter (\<lambda>r. id_reservation r = i) rs = [row]"
    by (cases "filter (\<lambda>r. id_reservation r = i) rs") auto
  then have "updateReservationStatus rs i st c
      = Inr (map (\<lambda>r. if id_reservation r = i then updatedReservation st c row else r) rs)"
    unfolding updateReservationStatus_def by simp
  then obtain rs' where "updateReservationStatus rs i st c = Inr rs'" by blast
  from updateReservationStatus_Inr[OF this] this show ?thesis by simp
qed

lemma updateReservationStatus_not_unique:
  assumes "length (filter (\<lambda>r. id_reservation r = i) rs) \<noteq> 1"
  shows "updateReservationStatus rs i st c = Inl UpdateFailed"
  using assms unfolding updateReservationStatus_def
  by (auto split: list.splits)

lemma onUpdateStatus_eq:
  "onUpdateStatus rs i st c =
     (if length (filter (\<lambda>r. id_reservation r = i) rs) = 1
      then map (\<lambda>r. if id_reservation r = i then updatedReservation st c r else r) rs
      else rs)"
  unfolding onUpdateStatus_def
  by (simp add: updateReservationStatus_unique updateReservationStatus_not_unique)

lemma id_updatedReservation [simp]: "id_reservation (updatedReservation st c r) = id_reservation r"
  unfolding updatedReservation_def by simp

lemma cancellationComment_auto_nonempty: "cancellationComment_auto tz fmt now r \<noteq> []"
  unfolding cancellationComment_auto_def by simp

lemma updatedReservation_auto:
  "updatedReservation Cancelled (Some (cancellationComment_auto tz fmt now r)) x
     = x\<lparr>status := Cancelled, cancellationComment := Some (cancellationComment_auto tz fmt now r)\<rparr>"
  unfolding updatedReservation_def writesComment_def
  by (simp add: cancellationComment_auto_nonempty)

lemma id_sweepEntry [simp]: "id_reservation (sweepEntry tz fmt now rs r) = id_reservation r"
  unfolding sweepEntry_def by simp

lemma length_filter_id_map:
  assumes "\<And>r. id_reservation (f r) = id_reservation r"
  shows "length (filter (\<lambda>r. id_reservation r = i) (map f xs))
       = length (filter (\<lambda>r. id_reservation r = i) xs)"
  by (simp add: o_def assms)

lemma filter_empty_of_unique:
  assumes "length (filter P (ys @ x # xs)) = 1" and "P x"
  shows "filter P ys = [] \<and> filter P xs = []"
  using assms by (cases "filter P ys"; cases "filter P xs") simp_all

lemma map_if_not_P:
  assumes "filter P xs = []"
  shows "map (\<lambda>r. if P r then g r else r) xs = xs"
  using assms by (induction xs) (auto split: if_splits)

lemma sweep_fold:
  assumes "rs = ys @ xs"
  shows "foldl (\<lambda>state (i, st, comment). onUpdateStatus state i st comment)
           (map (sweepEntry tz fmt now rs) ys @ xs)
           (map (\<lambda>r. (id_reservation r, Cancelled, Some (cancellationComment_auto tz fmt now r)))
              (filter (isNoShow tz now) xs))
       = map (sweepEntry tz fmt now rs) rs"
  using assms
proof (induction xs arbitrary: ys)
  case Nil
  then show ?case by simp
next
  case (Cons x xs)
  let ?f = "sweepEntry tz fmt now rs"
  have rs: "rs = (ys @ [x]) @ xs" using Cons.prems by simp
  show ?case
  proof (cases "isNoShow tz now x")
    case False
    then have "?f x = x" by (simp add: sweepEntry_def)
    then have "map ?f ys @ x # xs = map ?f (ys @ [x]) @ xs" by simp
    with Cons.IH[OF rs] False show ?thesis by simp
  next
    case True
    let ?i = "id_reservation x"
    let ?state = "map ?f ys @ x # xs"
    have cnt: "length (filter (\<lambda>r. id_reservation r = ?i) ?state)
        = length (filter (\<lambda>r. id_reservation r = ?i) rs)"
      unfolding Cons.prems
      by (simp add: o_def)
    have step: "onUpdateStatus ?state ?i Cancelled (Some (cancellationComment_auto tz fmt now x))
        = map ?f (ys @ [x]) @ xs"
    proof (cases "length (filter (\<lambda>r. id_reservation r = ?i) rs) = 1")
      case False
      then have "?f x = x" by (simp add: sweepEntry_def)
      with False cnt show ?thesis by (simp add: onUpdateStatus_eq)
    next
      case uniq: True
      then have fx: "?f x = x\<lparr>status := Cancelled,
          cancellationComment := Some (cancellationComment_auto tz fmt now x)\<rparr>"
        using True by (simp add: sweepEntry_def)
      from uniq have "length (filter (\<lambda>r. id_reservation r = ?i) (ys @ x # xs)) = 1"
        unfolding Cons.prems .
      from filter_empty_of_unique[OF this]
      have e1: "filter (\<lambda>r. id_reservation r = ?i) ys = []"
        and e2: "filter (\<lambda>r. id_reservation r = ?i) xs = []" by simp_all
      have e1': "filter (\<lambda>r. id_reservation r = ?i) (map ?f ys) = []"
        using e1 by (auto simp: filter_empty_conv)
      have "onUpdateStatus ?state ?i Cancelled (Some (cancellationComment_auto tz fmt now x))
          = map (\<lambda>r. if id_reservation r = ?i
                       then updatedReservation Cancelled (Some (cancellationComment_auto tz fmt now x)) r
                       else r) ?state"
        using uniq cnt by (simp add: onUpdateStatus_eq)
      also have "\<dots> = map ?f ys @ ?f x # xs"
        using map_if_not_P[OF e1'] map_if_not_P[OF e2]
        by (simp add: fx updatedReservation_auto)
      finally show ?thesis by simp
    qed
    have "foldl (\<lambda>state (i, st, comment). onUpdateStatus state i st comment) ?state
           (map (\<lambda>r. (id_reservation r, Cancelled, Some (cancellationComment_auto tz fmt now r)))
              (filter (isNoShow tz now) (x # xs)))
        = foldl (\<lambda>state (i, st, comment). onUpdateStatus state i st comment)
           (map ?f (ys @ [x]) @ xs)
           (map (\<lambda>r. (id_reservation r, Cancelled, Some (cancellationComment_auto tz fmt now r)))
              (filter (isNoShow tz now) xs))"
      using True step by simp
    with Cons.IH[OF rs] show ?thesis by simp
  qed
qed

lemma sweep_map: "sweep tz fmt now rs = map (sweepEntry tz fmt now rs) rs"
  unfolding sweep_def checkForNoShows_def Let_def
  using sweep_fold[of rs "[]" rs tz fmt now] by simp

lemma unique_of_distinct:
  assumes "distinct (map id_reservation rs)" and "r \<in> set rs"
  shows "length (filter (\<lambda>x. id_reservation x = id_reservation r) rs) = 1"
  using assms
proof (induction rs)
  case Nil
  then show ?case by simp
next
  case (Cons a rs)
  show ?case
  proof (cases "id_reservation a = id_reservation r")
    case True
    then have "id_reservation r \<notin> id_reservation ` set rs" using Cons.prems(1) by simp
    then have "filter (\<lambda>x. id_reservation x = id_reservation r) rs = []"
      by (auto simp: filter_empty_conv image_iff)
    with True show ?thesis by simp
  next
    case False
    then have "r \<in> set rs" using Cons.prems(2) by auto
    with Cons False show ?thesis by simp
  qed
qed

lemma updatedReservation_eq:
  "updatedReservation st c r =
     r\<lparr>status := st,
       cancellationComment := (if writesComment st c then c else cancellationComment r)\<rparr>"
  unfolding updatedReservation_def by simp

lemma onUpdateStatus_nth:
  assumes "k < length rs" and "row \<in> set rs" and "status row \<noteq> status (rs ! k)"
  shows "onUpdateStatus rs (id_reservation row) st c ! k = rs ! k"
proof (cases "length (filter (\<lambda>r. id_reservation r = id_reservation row) rs) = 1")
  case False
  then show ?thesis by (simp add: onUpdateStatus_eq)
next
  case True
  then obtain x where x: "filter (\<lambda>r. id_reservation r = id_reservation row) rs = [x]"
    by (cases "filter (\<lambda>r. id_reservation r = id_reservation row) rs") auto
  have "row = x" using filter_singleton_member[OF x assms(2)] by simp
  moreover have "rs ! k = x" if "id_reservation (rs ! k) = id_reservation row"
    using filter_singleton_member[OF x nth_mem[OF assms(1)] that] .
  ultimately have "id_reservation (rs ! k) \<noteq> id_reservation row"
    using assms(3) by auto
  then show ?thesis using True assms(1) by (simp add: onUpdateStatus_eq)
qed

lemma sweep_nth_not_confirmed:
  assumes "k < length rs" and "status (rs ! k) \<noteq> Confirmed"
  shows "sweep tz fmt now rs ! k = rs ! k"
  using assms by (simp add: sweep_map sweepEntry_def isNoShow_def)

subsection \<open>Terminal states\<close>

text \<open>The guards of the buttons and the filter of the sweep: neither a click on a button of
  any row nor a run of the sweep changes an entry of the store that is checked out or
  cancelled.\<close>

lemma terminal_kept_by_buttons_and_sweep:
  assumes "k < length rs"
    and "status (rs ! k) = CheckedOut \<or> status (rs ! k) = Cancelled"
    and "row \<in> set rs"
  shows "clickButton rs row b ! k = rs ! k \<and> sweep tz fmt now rs ! k = rs ! k"
proof
  show "clickButton rs row b ! k = rs ! k"
  proof (cases "rendered row b")
    case False
    then show ?thesis by (simp add: clickButton_def)
  next
    case True
    then have "status row = Confirmed \<or> status row = CheckedIn"
      unfolding rendered_def by (cases b) auto
    with assms(2) have "status row \<noteq> status (rs ! k)" by auto
    from onUpdateStatus_nth[OF assms(1,3) this] True show ?thesis
      unfolding clickButton_def by (cases b) simp_all
  qed
  show "sweep tz fmt now rs ! k = rs ! k"
    using assms(2) by (intro sweep_nth_not_confirmed[OF assms(1)]) auto
qed

text \<open>The form that edits: whatever the status of the reservation it was opened on, a
  submission that passes the validation leaves that reservation confirmed.\<close>

lemma submitEditForm_confirms:
  assumes "checkInDate_form fd = Some ci" and "checkOutDate_form fd = Some co" and "ci < co"
    and "length (filter (\<lambda>r. id_reservation r = id_reservation editing) rs) = 1"
    and "k < length rs" and "id_reservation (rs ! k) = id_reservation editing"
  shows "status (submitEditForm tz rs (Some editing) fd ! k) = Confirmed"
proof -
  from assms(4) obtain row where row: "filter (\<lambda>r. id_reservation r = id_reservation editing) rs = [row]"
    by (cases "filter (\<lambda>r. id_reservation r = id_reservation editing) rs") auto
  have "\<not> localDate tz co \<le> localDate tz ci"
    using assms(3) localDate_less_iff[of tz ci co] by simp
  then obtain d where d: "handleSubmit tz fd = OnSubmit d" and st: "status d = Confirmed"
    using assms(1,2) unfolding handleSubmit_def Let_def by simp
  show ?thesis
    unfolding submitEditForm_def d updateReservation_App_def updateReservation_def
    using row assms(5,6) st by (simp add: patchedReservation_def)
qed

subsection \<open>The room assignment resolver in a zone on UTC\<close>

lemma LocalTime_utcZone [simp]: "LocalTime utcZone t = t"
  unfolding LocalTime_def LocalTZA_utc_def inDst_def utcZone_def by simp

lemma UTC_utcZone [simp]: "UTC utcZone t = t"
  unfolding UTC_def LocalTZA_local_def inDst_def utcZone_def by simp

lemma localDate_utcZone: "localDate utcZone day = utcDate day"
  unfolding localDate_def utcDate_def by simp

lemma createTimeAwareDate_Form_utcZone:
  "createTimeAwareDate_Form utcZone (DateObject d) t = resolveInstant d t"
  unfolding createTimeAwareDate_Form_def resolveInstant_def createTimeAwareDate_App_def Let_def
    localMidnight_def setHours_def utcMidnight_def
  using MS_PER_DAY_pos by simp

lemma overlapsWindow_utcZone:
  "overlapsWindow utcZone hs initialData rt
       (resolveInstant ci (checkInTime hs)) (resolveInstant co (checkOutTime hs)) r
     = countsAgainstStay hs (map_option id_reservation initialData) rt ci co r"
  unfolding overlapsWindow_def countsAgainstStay_def overlapsStay_def intervalsOverlap_def Let_def
    createTimeAwareDate_Form_utcZone
  by (cases initialData) auto

lemma mem_specificRoomBookings:
  "i \<in> set (specificRoomBookings ov) \<longleftrightarrow> (\<exists>r\<in>set ov. hasSpecificRoom r \<and> specificRoomId r = Some i)"
  unfolding specificRoomBookings_def hasSpecificRoom_def
  by (auto simp: image_iff split: option.splits)

lemma not_booked_iff:
  "id_room room \<notin> set (specificRoomBookings ov)
     \<longleftrightarrow> list_all (\<lambda>r. specificRoomId r \<noteq> Some (id_room room)) (filter hasSpecificRoom ov)"
  unfolding mem_specificRoomBookings list_all_iff by auto

lemma availableRooms_code:
  "take (nat (max 0 (int (length
             (filter (\<lambda>room. id_room room \<notin> set (specificRoomBookings
                  (filter (overlapsWindow utcZone hs initialData rt
                     (resolveInstant ci (checkInTime hs))
                     (resolveInstant co (checkOutTime hs))) existing)))
               (filter (\<lambda>room. roomTypeId room = rt \<and> isActive room) roomList)))
          - int (genericBookingsCount
                  (filter (overlapsWindow utcZone hs initialData rt
                     (resolveInstant ci (checkInTime hs))
                     (resolveInstant co (checkOutTime hs))) existing)))))
     (filter (\<lambda>room. id_room room \<notin> set (specificRoomBookings
                  (filter (overlapsWindow utcZone hs initialData rt
                     (resolveInstant ci (checkInTime hs))
                     (resolveInstant co (checkOutTime hs))) existing)))
               (filter (\<lambda>room. roomTypeId room = rt \<and> isActive room) roomList))
   = availableRooms roomList existing hs (map_option id_reservation initialData) rt ci co"
proof -
  have ov: "filter (overlapsWindow utcZone hs initialData rt
                     (resolveInstant ci (checkInTime hs))
                     (resolveInstant co (checkOutTime hs))) existing
      = filter (countsAgainstStay hs (map_option id_reservation initialData) rt ci co) existing"
    by (rule filter_cong[OF refl]) (simp only: overlapsWindow_utcZone)
  have pool: "filter (\<lambda>room. roomTypeId room = rt \<and> isActive room) roomList
      = filter (\<lambda>room. isActive room \<and> roomTypeId room = rt) roomList"
    by (rule filter_cong[OF refl]) auto
  have n: "nat (max 0 (int a - int b)) = a - b" for a b :: nat
    by simp
  show ?thesis
    unfolding ov pool availableRooms_def Let_def genericBookingsCount_def n
    by (simp only: not_booked_iff)
qed

lemma getAvailableRooms_utcZone:
  assumes "checkInDate_form fd = Some ci" and "checkOutDate_form fd = Some co"
    and "roomType_form fd \<noteq> []"
  shows "getAvailableRooms utcZone roomList existing hs initialData fd
       = availableRooms roomList existing hs (map_option id_reservation initialData)
           (roomType_form fd) (utcDate ci) (utcDate co)"
  using assms unfolding getAvailableRooms_def Let_def localDate_utcZone createTimeAwareDate_Form_utcZone
  by (simp add: availableRooms_code del: filter_filter)

subsection \<open>The sweep in a zone on UTC\<close>

lemma setHours_utcZone: "setHours utcZone d ms = d div MS_PER_DAY * MS_PER_DAY + ms"
  unfolding setHours_def by simp

lemma isNoShow_utcZone:
  "isNoShow utcZone now r \<longleftrightarrow>
     status r = Confirmed \<and> (noShowDue utcZone now r \<or> stayElapsed utcZone now r)"
proof -
  have split: "now div MS_PER_DAY * MS_PER_DAY + now mod MS_PER_DAY = now"
    by simp
  have cut: "now div MS_PER_DAY * MS_PER_DAY + 39600000 \<le> now
      \<longleftrightarrow> 39600000 \<le> now mod MS_PER_DAY"
    using split by linarith
  have eq: "a * MS_PER_DAY = b * MS_PER_DAY \<longleftrightarrow> a = b" for a b :: int
    using MS_PER_DAY_pos by simp
  have lt: "a * MS_PER_DAY < b * MS_PER_DAY \<longleftrightarrow> a < b" for a b :: int
    using MS_PER_DAY_pos by simp
  show ?thesis
    unfolding isNoShow_def isCheckInOverdue_def isCheckInToday_def isStayOverdue_def today_def
      cutoffTime_def Let_def setHours_utcZone noShowDue_def stayElapsed_def calendarDay_def
      localDay_def localTimeOfDay_def LocalTime_utcZone
    by (auto simp: eq lt cut)
qed

lemma checkForNoShows_utcZone:
  "map fst (checkForNoShows utcZone fmt now rs) = dueForCancellation utcZone now rs"
proof -
  have "filter (isNoShow utcZone now) rs
      = filter (\<lambda>r. status r = Confirmed \<and> (noShowDue utcZone now r \<or> stayElapsed utcZone now r)) rs"
    by (rule filter_cong[OF refl]) (simp only: isNoShow_utcZone)
  then show ?thesis
    unfolding checkForNoShows_def dueForCancellation_def Let_def by (simp add: o_def)
qed

subsection \<open>The next-available-date search in a zone on UTC\<close>

lemma totalAvailableRoomsForPeriod_utcZone:
  "totalAvailableRoomsForPeriod utcZone
       (filter (\<lambda>room. roomTypeId room = rt \<and> isActive room) roomList)
       existing hs initialData rt dur s
     = int (length (availableRooms roomList existing hs (map_option id_reservation initialData)
                      rt s (s + dur)))"
proof -
  have n: "int (min a (nat (max 0 (int a - int b)))) = max 0 (int a - int b)" for a b :: nat
    by simp
  show ?thesis
    unfolding availableRooms_code[symmetric] totalAvailableRoomsForPeriod_def Let_def length_take n
      createTimeAwareDate_Form_utcZone
    by (rule refl)
qed

lemma searchLoop_find:
  "searchLoop tz pool existing hs initialData rt dur n s
     = List.find (\<lambda>x. totalAvailableRoomsForPeriod tz pool existing hs initialData rt dur x > 0)
         (map (\<lambda>k. s + int k * MS_PER_DAY) [0 ..< n])"
proof (induction n arbitrary: s)
  case 0
  show ?case by simp
next
  case (Suc n)
  have day: "24 * 60 * 60 * 1000 = MS_PER_DAY"
    by (simp add: MS_PER_DAY_def)
  have "map (\<lambda>k. s + int k * MS_PER_DAY) [0 ..< Suc n]
      = s # map (\<lambda>k. (s + MS_PER_DAY) + int k * MS_PER_DAY) [0 ..< n]"
    by (simp add: upt_conv_Cons map_Suc_upt[symmetric] algebra_simps del: upt_Suc)
  then show ?case
    by (simp only: searchLoop.simps day Suc.IH find.simps)
qed

lemma scan_starts_utcZone:
  "map (\<lambda>k. max (localMidnight utcZone now) (utcDate ci + MS_PER_DAY) + int k * MS_PER_DAY) [0 ..< n]
     = map utcDate (map (\<lambda>k. scanStart utcZone now ci + int k) [0 ..< n])"
proof -
  have le: "localDay utcZone now * MS_PER_DAY \<le> (ci + 1) * MS_PER_DAY \<longleftrightarrow> localDay utcZone now \<le> ci + 1"
    using MS_PER_DAY_pos by (simp only: mult_le_cancel_right) simp
  have "max (localDay utcZone now * MS_PER_DAY) ((ci + 1) * MS_PER_DAY)
      = max (localDay utcZone now) (ci + 1) * MS_PER_DAY"
    using le by (simp add: max_def)
  then have "max (localMidnight utcZone now) (utcDate ci + MS_PER_DAY) = utcDate (scanStart utcZone now ci)"
    unfolding localMidnight_def localDay_def utcDate_def scanStart_def
    by (simp add: algebra_simps)
  then show ?thesis
    by (simp add: utcDate_def algebra_simps)
qed

lemma find_none_of_empty_pool:
  assumes "filter (\<lambda>room. roomTypeId room = rt \<and> isActive room) roomList = []"
  shows "List.find (feasibleStart roomList existing hs ex rt d) xs = None"
proof -
  have "filter (\<lambda>room. isActive room \<and> roomTypeId room = rt) roomList = []"
    using assms by (auto simp: filter_empty_conv)
  then have "\<not> feasibleStart roomList existing hs ex rt d x" for x
    unfolding feasibleStart_def availableRooms_def Let_def by simp
  then show ?thesis by (simp add: find_None_iff)
qed

lemma find_map_option: "List.find P (map f xs) = map_option f (List.find (\<lambda>x. P (f x)) xs)"
  by (induction xs) simp_all

lemma getNext_utcZone:
  assumes "checkInDate_form fd = Some ci" and "checkOutDate_form fd = Some co"
    and "roomType_form fd \<noteq> []" and "ci < co"
  shows "getNextAvailableDateForRequestedDuration utcZone now roomList existing hs initialData fd
       = map_option utcDate
           (nextFeasibleStart utcZone now roomList existing hs (map_option id_reservation initialData)
              (roomType_form fd) (co - ci) ci)"
proof -
  let ?pool = "filter (\<lambda>room. roomTypeId room = roomType_form fd \<and> isActive room) roomList"
  have dur: "utcDate co - utcDate ci = (co - ci) * MS_PER_DAY"
    unfolding utcDate_def by (simp add: algebra_simps)
  have pos: "\<not> (co - ci) * MS_PER_DAY \<le> 0"
    using assms(4) MS_PER_DAY_pos by (simp add: mult_le_0_iff)
  have day: "24 * 60 * 60 * 1000 = MS_PER_DAY"
    by (simp add: MS_PER_DAY_def)
  have feas: "(\<lambda>x. totalAvailableRoomsForPeriod utcZone ?pool existing hs initialData (roomType_form fd)
                  ((co - ci) * MS_PER_DAY) (utcDate x) > 0)
      = feasibleStart roomList existing hs (map_option id_reservation initialData)
          (roomType_form fd) (co - ci)"
    unfolding feasibleStart_def totalAvailableRoomsForPeriod_utcZone utcDate_def
    by (auto simp: algebra_simps)
  have unfold: "getNextAvailableDateForRequestedDuration utcZone now roomList existing hs initialData fd
      = (if length ?pool = 0 then None
         else searchLoop utcZone ?pool existing hs initialData (roomType_form fd)
                ((co - ci) * MS_PER_DAY) maxSearchDays
                (max (localMidnight utcZone now) (utcDate ci + MS_PER_DAY)))"
    using assms(1,2,3) pos
    unfolding getNextAvailableDateForRequestedDuration_def Let_def day localDate_utcZone
    by (simp add: dur)
  show ?thesis
  proof (cases "?pool = []")
    case True
    then show ?thesis
      unfolding unfold nextFeasibleStart_def by (simp add: find_none_of_empty_pool)
  next
    case False
    then show ?thesis
      unfolding unfold nextFeasibleStart_def searchLoop_find scan_starts_utcZone maxSearchDays_def
        find_map_option feas
      by simp
  qed
qed

section \<open>The availability engine\<close>



section \<open>One time reference\<close>

text \<open>
  Claim C2. The two \<open>createTimeAwareDate\<close> functions should resolve a date and a time to the
  same instant. They do not: for the check-in date 2025-01-10 of a stored reservation (UTC
  midnight) and the time 15:00, in America/Chicago, six hours behind UTC in January, the
  function of App.tsx yields 2025-01-10T15:00Z and the function of ReservationForm.tsx
  yields 2025-01-09T21:00Z, the afternoon of the day before. For the string \<open>2025-01-10\<close> they
  yield 2025-01-10T15:00Z and 2025-01-10T21:00Z. In that zone the form therefore reads every
  stored reservation a day early: with room 1 pinned from 2025-01-10 to 2025-01-12, it
  offers room 1 for the night of 2025-01-11, for which the availability check of App.tsx
  counts the room as occupied.
\<close>

theorem createTimeAwareDate_mismatch:
  "createTimeAwareDate_App (DateObject (utcDate 20098)) \<lparr>hours = 15, minutes = 0\<rparr> = 1736521200000
   \<and> createTimeAwareDate_Form americaChicago (DateObject (utcDate 20098)) \<lparr>hours = 15, minutes = 0\<rparr>
       = 1736456400000
   \<and> createTimeAwareDate_App (DateString 20098) \<lparr>hours = 15, minutes = 0\<rparr> = 1736521200000
   \<and> createTimeAwareDate_Form americaChicago (DateString 20098) \<lparr>hours = 15, minutes = 0\<rparr>
       = 1736542800000
   \<and> map id_room (getAvailableRooms americaChicago (rooms defaultHotelSettings)
        [storedReservation ''a'' 20098 20100 ''standard'' (Some ''1'') Confirmed]
        defaultHotelSettings None (exampleForm 20099 20100 ''standard'')) = [''1'', ''2'']
   \<and> occupiedRoomsOfType defaultHotelSettings
        [storedReservation ''a'' 20098 20100 ''standard'' (Some ''1'') Confirmed]
        ''standard'' (utcDate 20099) = 1"
  by code_simp

section \<open>Same-day turnover\<close>




section \<open>The auto-cancellation sweep\<close>

text \<open>
  Claim C5. One run of \<open>checkForNoShows\<close> should cancel exactly the confirmed reservations
  whose check-in date is today when the local time is at or past 11:00, or whose check-out
  date is before today. It does not, wherever the zone is behind UTC: the sweep reads the
  stored dates, which are UTC midnights, in local time, and so a day early. In
  America/Chicago, the confirmed reservation from 2025-01-10 to 2025-01-12 is cancelled on
  2025-01-09 at 11:00, the day before its check-in date, with a comment that cites
  1/9/2025; on 2025-01-10 at 11:01, when it is due, it is not selected; and on 2025-01-12 at
  09:00, its check-out date, it is cancelled as a stay whose departure date, cited as
  1/11/2025, has passed. In a zone on UTC the sweep selects exactly the reservations that
  are due (lemma \<open>checkForNoShows_utcZone\<close>).
\<close>

theorem checkForNoShows_reads_dates_a_day_early:
  "calendarDay (checkInDate (storedReservation ''a'' 20098 20100 ''standard'' None Confirmed)) = 20098
   \<and> calendarDay (checkOutDate (storedReservation ''a'' 20098 20100 ''standard'' None Confirmed)) = 20100
   \<and> localDay americaChicago (utcDate 20097 + 17 * MS_PER_HOUR) = 20097
   \<and> localTimeOfDay americaChicago (utcDate 20097 + 17 * MS_PER_HOUR) = 11 * MS_PER_HOUR
   \<and> dueForCancellation americaChicago (utcDate 20097 + 17 * MS_PER_HOUR)
        [storedReservation ''a'' 20098 20100 ''standard'' None Confirmed] = []
   \<and> sweep americaChicago chicagoDateString (utcDate 20097 + 17 * MS_PER_HOUR)
        [storedReservation ''a'' 20098 20100 ''standard'' None Confirmed]
     = [ (storedReservation ''a'' 20098 20100 ''standard'' None Cancelled)
           \<lparr>cancellationComment :=
              Some ''Automatically cancelled - Guest did not check in by 11:00 AM on 1/9/2025''\<rparr> ]
   \<and> localDay americaChicago (utcDate 20098 + 17 * MS_PER_HOUR + 60000) = 20098
   \<and> dueForCancellation americaChicago (utcDate 20098 + 17 * MS_PER_HOUR + 60000)
        [storedReservation ''a'' 20098 20100 ''standard'' None Confirmed] = [''a'']
   \<and> checkForNoShows americaChicago chicagoDateString (utcDate 20098 + 17 * MS_PER_HOUR + 60000)
        [storedReservation ''a'' 20098 20100 ''standard'' None Confirmed] = []
   \<and> localDay americaChicago (utcDate 20100 + 15 * MS_PER_HOUR) = 20100
   \<and> dueForCancellation americaChicago (utcDate 20100 + 15 * MS_PER_HOUR)
        [storedReservation ''a'' 20098 20100 ''standard'' None Confirmed] = []
   \<and> sweep americaChicago chicagoDateString (utcDate 20100 + 15 * MS_PER_HOUR)
        [storedReservation ''a'' 20098 20100 ''standard'' None Confirmed]
     = [ (storedReservation ''a'' 20098 20100 ''standard'' None Cancelled)
           \<lparr>cancellationComment :=
              Some ''Automatically cancelled - Guest did not check in by departure date (1/11/2025)''\<rparr> ]"
  by code_simp

text \<open>
  Claim C8. With the time fixed, a second run of the sweep leaves the store as the first run
  left it; where ids are unique, the second run finds no reservation to cancel, since every
  reservation the first run cancelled fails the filter's test for \<open>confirmed\<close>.
\<close>

theorem sweep_idempotent:
  "sweep tz fmt now (sweep tz fmt now rs) = sweep tz fmt now rs
   \<and> (distinct (map id_reservation rs) \<longrightarrow> checkForNoShows tz fmt now (sweep tz fmt now rs) = [])"
proof
  let ?rs1 = "map (sweepEntry tz fmt now rs) rs"
  have cnt: "length (filter (\<lambda>x. id_reservation x = i) ?rs1)
      = length (filter (\<lambda>x. id_reservation x = i) rs)" for i
    by (simp add: o_def)
  have stable: "sweepEntry tz fmt now ?rs1 (sweepEntry tz fmt now rs r) = sweepEntry tz fmt now rs r" for r
  proof (cases "isNoShow tz now r \<and> length (filter (\<lambda>x. id_reservation x = id_reservation r) rs) = 1")
    case True
    then have "sweepEntry tz fmt now rs r = r\<lparr>status := Cancelled,
        cancellationComment := Some (cancellationComment_auto tz fmt now r)\<rparr>"
      by (simp add: sweepEntry_def)
    moreover have "\<not> isNoShow tz now (r\<lparr>status := Cancelled,
        cancellationComment := Some (cancellationComment_auto tz fmt now r)\<rparr>)"
      by (simp add: isNoShow_def)
    ultimately show ?thesis by (simp add: sweepEntry_def)
  next
    case False
    then have "sweepEntry tz fmt now rs r = r" by (auto simp: sweepEntry_def)
    moreover have "sweepEntry tz fmt now ?rs1 r = r"
      using False by (subst sweepEntry_def, simp only: cnt) auto
    ultimately show ?thesis by simp
  qed
  show "sweep tz fmt now (sweep tz fmt now rs) = sweep tz fmt now rs"
    unfolding sweep_map by (simp add: stable o_def del: id_sweepEntry)
  show "distinct (map id_reservation rs) \<longrightarrow> checkForNoShows tz fmt now (sweep tz fmt now rs) = []"
  proof
    assume d: "distinct (map id_reservation rs)"
    have "\<not> isNoShow tz now (sweepEntry tz fmt now rs r)" if "r \<in> set rs" for r
      using unique_of_distinct[OF d that] by (simp add: sweepEntry_def isNoShow_def)
    then have "filter (isNoShow tz now) ?rs1 = []"
      by (auto simp: filter_empty_conv)
    then show "checkForNoShows tz fmt now (sweep tz fmt now rs) = []"
      unfolding sweep_map checkForNoShows_def Let_def by simp
  qed
qed

text \<open>The example of 2025-01-10 again: the second run changes nothing and makes no call.\<close>

theorem sweep_idempotent_witness:
  "sweep utcZone exampleDateString sweepExampleNow (sweep utcZone exampleDateString sweepExampleNow sweepExample)
     = sweep utcZone exampleDateString sweepExampleNow sweepExample
   \<and> map status (sweep utcZone exampleDateString sweepExampleNow sweepExample)
       = [Cancelled, CheckedIn, Cancelled, Confirmed]
   \<and> checkForNoShows utcZone exampleDateString sweepExampleNow
         (sweep utcZone exampleDateString sweepExampleNow sweepExample) = []"
proof -
  have d: "distinct (map id_reservation sweepExample)"
    by code_simp
  have s: "map status (sweep utcZone exampleDateString sweepExampleNow sweepExample)
       = [Cancelled, CheckedIn, Cancelled, Confirmed]"
    by code_simp
  show ?thesis
    using sweep_idempotent[of utcZone exampleDateString sweepExampleNow sweepExample] d s by simp
qed

section \<open>Status transitions\<close>

text \<open>
  Claim C10. A successful \<open>updateReservationStatus\<close> keeps the length of the store and changes
  at most the entry with the given id, and of it only the status, which becomes the target
  status, and the cancellation comment, which becomes the given comment when the target is
  \<open>cancelled\<close> and a non-empty comment is given and stays as it was otherwise; every other field
  of that reservation and every other reservation are as before. A failed update changes
  nothing.
\<close>

theorem updateReservationStatus_frame:
  "(updateReservationStatus rs i st c = Inr rs' \<longrightarrow>
      length rs' = length rs \<and>
      (\<forall>k<length rs.
         sameOtherFields (rs ! k) (rs' ! k) \<and>
         (id_reservation (rs ! k) \<noteq> i \<longrightarrow> rs' ! k = rs ! k) \<and>
         (id_reservation (rs ! k) = i \<longrightarrow>
            rs' ! k = (rs ! k)\<lparr>status := st,
              cancellationComment := (if writesComment st c then c else cancellationComment (rs ! k))\<rparr>) \<and>
         (\<not> (st = Cancelled \<and> (\<exists>s. c = Some s \<and> s \<noteq> [])) \<longrightarrow>
            cancellationComment (rs' ! k) = cancellationComment (rs ! k))))
   \<and> (updateReservationStatus rs i st c = Inl e \<longrightarrow> onUpdateStatus rs i st c = rs)"
proof (intro conjI impI)
  assume a: "updateReservationStatus rs i st c = Inr rs'"
  note eq = updateReservationStatus_Inr[OF a, THEN conjunct2]
  show "length rs' = length rs" by (simp add: eq)
  show "\<forall>k<length rs.
         sameOtherFields (rs ! k) (rs' ! k) \<and>
         (id_reservation (rs ! k) \<noteq> i \<longrightarrow> rs' ! k = rs ! k) \<and>
         (id_reservation (rs ! k) = i \<longrightarrow>
            rs' ! k = (rs ! k)\<lparr>status := st,
              cancellationComment := (if writesComment st c then c else cancellationComment (rs ! k))\<rparr>) \<and>
         (\<not> (st = Cancelled \<and> (\<exists>s. c = Some s \<and> s \<noteq> [])) \<longrightarrow>
            cancellationComment (rs' ! k) = cancellationComment (rs ! k))"
  proof (intro allI impI)
    fix k assume k: "k < length rs"
    have nth: "rs' ! k = (if id_reservation (rs ! k) = i then updatedReservation st c (rs ! k) else rs ! k)"
      using k by (simp add: eq)
    have w: "writesComment st c \<longleftrightarrow> (st = Cancelled \<and> (\<exists>s. c = Some s \<and> s \<noteq> []))"
      unfolding writesComment_def by (cases c) auto
    show "sameOtherFields (rs ! k) (rs' ! k) \<and>
         (id_reservation (rs ! k) \<noteq> i \<longrightarrow> rs' ! k = rs ! k) \<and>
         (id_reservation (rs ! k) = i \<longrightarrow>
            rs' ! k = (rs ! k)\<lparr>status := st,
              cancellationComment := (if writesComment st c then c else cancellationComment (rs ! k))\<rparr>) \<and>
         (\<not> (st = Cancelled \<and> (\<exists>s. c = Some s \<and> s \<noteq> [])) \<longrightarrow>
            cancellationComment (rs' ! k) = cancellationComment (rs ! k))"
      unfolding nth w[symmetric]
      by (simp add: sameOtherFields_def updatedReservation_eq)
  qed
next
  assume "updateReservationStatus rs i st c = Inl e"
  then show "onUpdateStatus rs i st c = rs"
    unfolding onUpdateStatus_def by simp
qed

text \<open>Cancelling the checked-in reservation with a comment writes status and comment; checking
  in the confirmed one with a comment writes the status only; an unknown id fails and leaves
  the store as it was.\<close>

theorem updateReservationStatus_frame_witness:
  "updateReservationStatus sweepExample ''b'' Cancelled (Some ''guest left early'')
     = Inr [ sweepExample ! 0,
             (sweepExample ! 1)\<lparr>status := Cancelled, cancellationComment := Some ''guest left early''\<rparr>,
             sweepExample ! 2, sweepExample ! 3 ]
   \<and> updateReservationStatus sweepExample ''a'' CheckedIn (Some ''early arrival'')
     = Inr [ (sweepExample ! 0)\<lparr>status := CheckedIn\<rparr>,
             sweepExample ! 1, sweepExample ! 2, sweepExample ! 3 ]
   \<and> updateReservationStatus sweepExample ''z'' Cancelled None = Inl UpdateFailed
   \<and> onUpdateStatus sweepExample ''z'' Cancelled None = sweepExample"
proof -
  have e1: "updateReservationStatus sweepExample ''b'' Cancelled (Some ''guest left early'')
     = Inr [ sweepExample ! 0,
             (sweepExample ! 1)\<lparr>status := Cancelled, cancellationComment := Some ''guest left early''\<rparr>,
             sweepExample ! 2, sweepExample ! 3 ]"
    by code_simp
  have e2: "updateReservationStatus sweepExample ''a'' CheckedIn (Some ''early arrival'')
     = Inr [ (sweepExample ! 0)\<lparr>status := CheckedIn\<rparr>,
             sweepExample ! 1, sweepExample ! 2, sweepExample ! 3 ]"
    by code_simp
  have e3: "updateReservationStatus sweepExample ''z'' Cancelled None = Inl UpdateFailed"
    by code_simp
  from updateReservationStatus_frame[of sweepExample "''z''" Cancelled None "[]" UpdateFailed] e3
  have "onUpdateStatus sweepExample ''z'' Cancelled None = sweepExample"
    by simp
  with e1 e2 e3 show ?thesis by simp
qed

text \<open>
  Claim C7. No operation should change the status of a reservation that is checked out or
  cancelled. The buttons of the list and the sweep observe this, by their guards; the form
  that edits does not. A click on the row of a cancelled or checked-out reservation opens
  the form on it, and \<open>handleSubmit\<close> submits every reservation with the status \<open>confirmed\<close>,
  which \<open>updateReservation\<close> writes: saving the form returns the reservation to \<open>confirmed\<close>
  (lemma \<open>submitEditForm_confirms\<close>; for the guards, lemma
  \<open>terminal_kept_by_buttons_and_sweep\<close>). In the example the cancelled reservation \<open>a\<close> and the
  checked-out reservation \<open>b\<close> are edited and saved; no button of the row of \<open>a\<close> does
  anything, and the sweep leaves both as they are.
\<close>

theorem edit_returns_terminal_to_confirmed:
  "map status terminalExample = [Cancelled, CheckedOut, Confirmed]
   \<and> onRowClick terminalExample ''a'' = Some (terminalExample ! 0)
   \<and> map status (submitEditForm americaChicago terminalExample (onRowClick terminalExample ''a'')
          (exampleForm 20095 20097 ''suite'')) = [Confirmed, CheckedOut, Confirmed]
   \<and> onRowClick terminalExample ''b'' = Some (terminalExample ! 1)
   \<and> map status (submitEditForm americaChicago terminalExample (onRowClick terminalExample ''b'')
          (exampleForm 20095 20097 ''deluxe'')) = [Cancelled, Confirmed, Confirmed]
   \<and> clickButton terminalExample (terminalExample ! 0) CheckInButton = terminalExample
   \<and> clickButton terminalExample (terminalExample ! 0) CheckOutButton = terminalExample
   \<and> clickButton terminalExample (terminalExample ! 0) (CancelButton ''again'') = terminalExample
   \<and> take 2 (sweep utcZone exampleDateString sweepExampleNow terminalExample) = take 2 terminalExample"
  by code_simp

section \<open>The room assignment resolver\<close>

text \<open>
  Claim C4. \<open>getAvailableRooms\<close> should remove from the active rooms of the requested type
  every room pinned by an overlapping reservation, reduce what remains by the number of
  overlapping generic reservations, and never return a room pinned by a reservation, neither
  cancelled nor checked out, that covers an overlapping window. It does not, wherever the
  zone is behind UTC: the form resolves the stored dates in local time, a day early. In
  America/Chicago, with both standard rooms taken from 2025-01-10 to 2025-01-12, room 1
  pinned by a confirmed reservation and the other held by a generic one, the form offers
  rooms 1 and 2 for the night of 2025-01-11, where the pool reduction leaves no room and the
  availability check reports that night overbooked. In a zone on UTC the function is the
  pool reduction (lemma \<open>getAvailableRooms_utcZone\<close>), and the form offers no room.
\<close>

theorem getAvailableRooms_offers_pinned_room:
  "map id_room (getAvailableRooms americaChicago (rooms defaultHotelSettings) standardExample
      defaultHotelSettings None (exampleForm 20099 20100 ''standard'')) = [''1'', ''2'']
   \<and> status (standardExample ! 0) = Confirmed
   \<and> pinnedDuring defaultHotelSettings (utcDate 20099) (utcDate 20100)
        (standardRoom ''1'' ''101'') (standardExample ! 0)
   \<and> map id_room (availableRooms (rooms defaultHotelSettings) standardExample defaultHotelSettings
        None ''standard'' (utcDate 20099) (utcDate 20100)) = []
   \<and> checkRoomAvailability americaChicago defaultHotelSettings standardExample
        (formReservation americaChicago 20099 20100 ''standard'') = [localDate americaChicago 20099]
   \<and> map id_room (getAvailableRooms utcZone (rooms defaultHotelSettings) standardExample
        defaultHotelSettings None (exampleForm 20099 20100 ''standard'')) = []"
  by code_simp

section \<open>Validation on submission\<close>

text \<open>
  Claim C9. A submission whose check-out date is not after its check-in date, a stay of zero
  nights included, is answered by the alert: \<open>onSubmit\<close> is not called and no reservation data
  is passed on. A submission whose check-out date is after its check-in date calls
  \<open>onSubmit\<close> with these dates.
\<close>

theorem handleSubmit_rejects:
  assumes "checkInDate_form fd = Some ci" and "checkOutDate_form fd = Some co"
  shows "(co \<le> ci \<longrightarrow>
            handleSubmit tz fd = Alert ''Check-out date must be after check-in date'' \<and>
            (\<forall>d. handleSubmit tz fd \<noteq> OnSubmit d) \<and> handleSubmit tz fd \<noteq> OnSubmitInvalidDate)
       \<and> (ci < co \<longrightarrow>
            (\<exists>d. handleSubmit tz fd = OnSubmit d \<and> checkInDate d = localDate tz ci \<and>
                 checkOutDate d = localDate tz co \<and> checkInDate d < checkOutDate d))"
proof -
  have le: "localDate tz co \<le> localDate tz ci \<longleftrightarrow> co \<le> ci"
    using localDate_less_iff[of tz ci co] by linarith
  show ?thesis
    using assms unfolding handleSubmit_def Let_def
    by (auto simp: le not_le[symmetric])
qed

text \<open>A stay of zero nights and a stay that ends before it begins are rejected; a stay of one
  night is submitted.\<close>

theorem handleSubmit_rejects_witness:
  "handleSubmit americaChicago (exampleForm 20098 20098 ''suite'')
     = Alert ''Check-out date must be after check-in date''
   \<and> handleSubmit americaChicago (exampleForm 20098 20097 ''suite'')
     = Alert ''Check-out date must be after check-in date''
   \<and> (\<exists>d. handleSubmit americaChicago (exampleForm 20098 20099 ''suite'') = OnSubmit d)"
proof -
  have a: "checkInDate_form (exampleForm 20098 20098 ''suite'') = Some 20098"
    and b: "checkOutDate_form (exampleForm 20098 20098 ''suite'') = Some 20098"
    and b': "checkOutDate_form (exampleForm 20098 20097 ''suite'') = Some 20097"
    and a': "checkInDate_form (exampleForm 20098 20097 ''suite'') = Some 20098"
    and a'': "checkInDate_form (exampleForm 20098 20099 ''suite'') = Some 20098"
    and b'': "checkOutDate_form (exampleForm 20098 20099 ''suite'') = Some 20099"
    by (simp_all add: exampleForm_def)
  show ?thesis
    using handleSubmit_rejects[OF a b, of americaChicago] handleSubmit_rejects[OF a' b', of americaChicago]
      handleSubmit_rejects[OF a'' b'', of americaChicago]
    by auto
qed

section \<open>The next-available-date search\<close>

text \<open>
  Claim C6. \<open>getNextAvailableDateForRequestedDuration\<close> should return the first start, among
  the 365 days from the later of today and the day after the requested check-in date, whose
  window leaves a room under the pool reduction of the room assignment resolver. It does
  not, wherever the zone is behind UTC: the search resolves the stored dates in local time,
  a day early. In America/Chicago, two nights in the hotel's only suite being requested
  from 2025-01-10 and the suite being taken until 2025-01-13, the search returns 2025-01-12,
  a start that is not feasible, since the suite is pinned for the night of 2025-01-12, and
  for which the availability check reports that night overbooked; the first feasible start
  is 2025-01-13. In a zone on UTC the search is the scan of the specification (lemma
  \<open>getNext_utcZone\<close>), and returns 2025-01-13.
\<close>

theorem nextAvailableDate_returns_occupied_start:
  "getNextAvailableDateForRequestedDuration americaChicago (utcDate 20090 + 5000)
      (rooms defaultHotelSettings) suiteExample defaultHotelSettings None
      (exampleForm 20098 20100 ''suite'') = Some (localDate americaChicago 20100)
   \<and> \<not> feasibleStart (rooms defaultHotelSettings) suiteExample defaultHotelSettings None ''suite'' 2 20100
   \<and> pinnedDuring defaultHotelSettings (utcDate 20100) (utcDate 20102)
        \<lparr> id_room = ''5'', roomNumber = ''301'', roomTypeId = ''suite'', isActive = True,
          amenities = [''wifi'', ''tv'', ''bathroom'', ''ac'', ''coffee'', ''minibar'', ''balcony''] \<rparr>
        (suiteExample ! 1)
   \<and> checkRoomAvailability americaChicago defaultHotelSettings suiteExample
        (formReservation americaChicago 20100 20102 ''suite'') = [localDate americaChicago 20100]
   \<and> nextFeasibleStart americaChicago (utcDate 20090 + 5000) (rooms defaultHotelSettings)
        suiteExample defaultHotelSettings None ''suite'' 2 20098 = Some 20101
   \<and> getNextAvailableDateForRequestedDuration utcZone (utcDate 20090 + 5000)
        (rooms defaultHotelSettings) suiteExample defaultHotelSettings None
        (exampleForm 20098 20100 ''suite'') = Some (utcDate 20101)"
  by code_simp

end
